theory Spec2Isabelle
  imports Complex_Main "HOL-Library.Monad_Syntax" "HOL-Library.Sublist"
begin

section \<open>vl_imreadjpeg2: asynchronous batched image reading\<close>

text \<open>
  A shallow embedding of \<^verbatim>\<open>matlab/src/vl_imreadjpeg2.cu\<close>: the \<^verbatim>\<open>Batch\<close> class with
  its items, the per-item transformation computed by \<^verbatim>\<open>Batch::prefetch\<close>, the body of
  \<^verbatim>\<open>ReaderTask::entryPoint\<close>, and the dispatcher \<^verbatim>\<open>mexFunction\<close>.

  Conventions.
  \<^item> \<^verbatim>\<open>double\<close> and \<^verbatim>\<open>float\<close> values are idealised as real numbers: rounding error is
    not modelled. A division whose divisor is zero (IEEE: an infinity or a NaN) is made
    explicit: the computation then yields \<open>None\<close>, and nothing is stated about the
    values derived from it.
  \<^item> \<^verbatim>\<open>size_t\<close> and \<^verbatim>\<open>int\<close> values are unbounded integers; no image here is large enough
    to wrap them.
  \<^item> A pointer to an item is its position in \<^verbatim>\<open>items\<close>.
  \<^item> The image reader, the resampling kernel, the pseudo-random generator and the CUDA
    copy are not part of the file; they are parameters, collected in the record \<open>env\<close>.
\<close>

subsection \<open>C arithmetic\<close>

text \<open>\<^verbatim>\<open>round\<close> of math.h: to the nearest integer, halves away from zero.\<close>

definition c_round :: "real \<Rightarrow> real" where
  "c_round x = (if 0 \<le> x then of_int \<lfloor>x + 1 / 2\<rfloor> else of_int \<lceil>x - 1 / 2\<rceil>)"

text \<open>Conversion of a \<^verbatim>\<open>double\<close> to an integer type: truncation towards zero.\<close>

definition c_trunc :: "real \<Rightarrow> int" where
  "c_trunc x = (if 0 \<le> x then \<lfloor>x\<rfloor> else \<lceil>x\<rceil>)"

text \<open>Integer division and remainder of C: the quotient is truncated towards zero.\<close>

definition c_div :: "int \<Rightarrow> int \<Rightarrow> int" where
  "c_div a b = sgn a * sgn b * (\<bar>a\<bar> div \<bar>b\<bar>)"

definition c_rem :: "int \<Rightarrow> int \<Rightarrow> int" where
  "c_rem a b = a - b * c_div a b"

text \<open>Division of doubles, with the zero divisor made explicit.\<close>

definition ddiv :: "real \<Rightarrow> real \<Rightarrow> real option" where
  "ddiv x y = (if y = 0 then None else Some (x / y))"

subsection \<open>Data\<close>

datatype State = prefetch | fetch | ready

text \<open>
  \<^verbatim>\<open>vl::ErrorCode\<close> is declared in \<^verbatim>\<open>bits/data.hpp\<close>; only \<^verbatim>\<open>VLE_Success\<close> and
  \<^verbatim>\<open>VLE_Cuda\<close> are named in this file, the other constructors stand for whatever the
  reader reports.
\<close>

datatype ErrorCode = VLE_Success | VLE_Unsupported | VLE_Cuda | VLE_IllegalArgument | VLE_Unknown

record ImageShape =
  height :: nat
  width :: nat
  depth :: nat

text \<open>
  \<^verbatim>\<open>vl::MexTensor\<close>: not allocated, or allocated with a shape and contents. The contents
  are \<open>None\<close> until they are written (\<^verbatim>\<open>init\<close> does not clear the memory).
  \<open>Tensor_indeterminate\<close> is a tensor allocated from a transformation that left the
  finite doubles.
\<close>

datatype MexTensor =
    Tensor_null
  | Tensor_data "int \<times> int \<times> int \<times> int" "real list option"
  | Tensor_indeterminate

text \<open>
  The packed tensor \<^verbatim>\<open>cpuPack\<close> / \<^verbatim>\<open>gpuPack\<close>: its shape and one slab per item, the slab
  of item \<open>i\<close> being the \<^verbatim>\<open>outputHeight*outputWidth*3\<close> floats at offset
  \<^verbatim>\<open>outputHeight*outputWidth*3*index\<close>; \<open>None\<close> is a slab nobody wrote.
\<close>

datatype Pack =
    Pack_null
  | Pack_data "int \<times> int \<times> int \<times> int" "real list option list"

text \<open>
  The fields \<^verbatim>\<open>outputWidth\<close> ... \<^verbatim>\<open>saturationShift\<close> of \<^verbatim>\<open>Batch::Item\<close>, which
  \<^verbatim>\<open>Batch::prefetch\<close> computes together. \<^verbatim>\<open>brightnessShift\<close> holds the entries the
  loop assigns, that is \<^verbatim>\<open>outputNumChannels\<close> of them.
\<close>

record Plan =
  outputWidth :: int
  outputHeight :: int
  outputNumChannels :: nat
  cropWidth :: int
  cropHeight :: int
  cropOffsetX :: int
  cropOffsetY :: int
  flip :: bool
  brightnessShift :: "real list"
  contrastShift :: real
  saturationShift :: real

text \<open>
  \<^verbatim>\<open>Batch::Item\<close>. The constructor leaves the transformation fields unassigned:
  \<open>plan = None\<close>, which also stands for a transformation with indeterminate values.
\<close>

record Item =
  state :: State
  name :: string
  shape :: ImageShape
  error :: ErrorCode
  errorMessage :: string
  borrowed :: bool
  cpuArray :: MexTensor
  gpuArray :: MexTensor
  index :: nat
  plan :: "Plan option"

datatype ResizeMethod = noResize | resizeShortestSide | fixedSize

datatype PackingMethod = individualArrays | singleArray

datatype CropLocation = cropCenter | cropRandom

record Batch =
  quit :: bool
  items :: "Item list"
  nextItem :: nat
  numReturnedItems :: nat
  packingMethod :: PackingMethod
  resizeMethod :: ResizeMethod
  resizeHeight :: int
  resizeWidth :: int
  gpuMode :: bool
  average :: "real list"
  contrastDeviation :: real
  saturationDeviation :: real
  brightnessDeviation :: "real list"
  minCropAnisotropy :: real
  maxCropAnisotropy :: real
  minCropSize :: real
  maxCropSize :: real
  cropLocation :: CropLocation
  flipMode :: bool
  cpuPack :: Pack
  gpuPack :: Pack

subsection \<open>What the file takes from outside\<close>

text \<open>
  The values that the calls of \<^verbatim>\<open>rand()\<close> and \<^verbatim>\<open>vl::randn()\<close> return while
  \<^verbatim>\<open>Batch::prefetch\<close> handles one item, in the order of the calls.
\<close>

record Draws =
  r_anisotropy :: int
  r_size :: int
  r_dx :: int
  r_dy :: int
  r_flip :: int
  r_saturation :: int
  r_contrast :: int
  w_randn :: "nat \<Rightarrow> real"

text \<open>
  \<^item> \<open>readShape\<close>, \<open>readPixels\<close>, \<open>getLastErrorMessage\<close>: \<^verbatim>\<open>vl::ImageReader\<close>, by file
    name; \<open>readShape\<close> also tells what it leaves in the shape when it fails.
  \<^item> \<open>imageResizeVertical src dstHeight srcHeight width depth cropHeight cropOffset flip\<close>:
    the contents that \<^verbatim>\<open>vl::impl::imageResizeVertical\<close> writes to its destination.
  \<^item> \<open>rand_draws i\<close>: the pseudo-random values drawn for the item of index \<open>i\<close>;
    \<open>RAND_MAX\<close>: the constant of stdlib.h.
  \<^item> \<open>cudaMemcpyAsync_ok i\<close>: whether the copy started on behalf of the item of index
    \<open>i\<close> succeeds.
  \<^item> \<open>uninit_dv k\<close>: what the stack holds in \<^verbatim>\<open>dv[k]\<close> when \<^verbatim>\<open>entryPoint\<close>
    declares the array without initialising it.
\<close>

record env =
  readShape :: "string \<Rightarrow> ErrorCode \<times> ImageShape"
  readPixels :: "string \<Rightarrow> ErrorCode \<times> real list"
  getLastErrorMessage :: "string \<Rightarrow> string"
  imageResizeVertical :: "real list \<Rightarrow> int \<Rightarrow> int \<Rightarrow> int \<Rightarrow> int \<Rightarrow> int \<Rightarrow> int \<Rightarrow> bool \<Rightarrow> real list"
  rand_draws :: "nat \<Rightarrow> Draws"
  RAND_MAX :: int
  cudaMemcpyAsync_ok :: "nat \<Rightarrow> bool"
  uninit_dv :: "nat \<Rightarrow> real"

subsection \<open>The transformation of one item (body of the loop of Batch::prefetch)\<close>

text \<open>
  Lines 576-595: the height and the width of the output image; \<open>shortest_side_scale\<close> is
  the variable \<^verbatim>\<open>scale\<close> of the case \<^verbatim>\<open>resizeShortestSide\<close>.
\<close>

definition shortest_side_scale :: "Batch \<Rightarrow> ImageShape \<Rightarrow> real option" where
  "shortest_side_scale b s = do {
     scale1 \<leftarrow> ddiv (of_int (resizeHeight b)) (real (width s));
     scale2 \<leftarrow> ddiv (of_int (resizeHeight b)) (real (height s));
     Some (max scale1 scale2)
   }"

definition output_size :: "Batch \<Rightarrow> ImageShape \<Rightarrow> (int \<times> int) option" where
  "output_size b s =
     (case resizeMethod b of
        noResize \<Rightarrow> Some (int (height s), int (width s))
      | resizeShortestSide \<Rightarrow> do {
          scale \<leftarrow> shortest_side_scale b s;
          Some (c_trunc (max 1 (c_round (scale * real (height s)))),
                c_trunc (max 1 (c_round (scale * real (width s)))))
        }
      | fixedSize \<Rightarrow> Some (resizeHeight b, resizeWidth b))"

text \<open>Lines 597-611: the aspect ratio of the crop; the result is (cropWidth, cropHeight).\<close>

definition anisotropy_ratio :: "int \<Rightarrow> Batch \<Rightarrow> ImageShape \<Rightarrow> Draws \<Rightarrow> int \<Rightarrow> int \<Rightarrow> real option" where
  "anisotropy_ratio rm b s d outH outW =
     (if minCropAnisotropy b = 0 \<and> maxCropAnisotropy b = 0 then do {
        inputAspect \<leftarrow> ddiv (real (width s)) (real (height s));
        outputAspect \<leftarrow> ddiv (of_int outW) (of_int outH);
        ddiv outputAspect inputAspect
      } else do {
        z \<leftarrow> ddiv (of_int (r_anisotropy d)) (of_int rm);
        Some (z * (maxCropAnisotropy b - minCropAnisotropy b) + minCropAnisotropy b)
      })"

definition crop_aspect :: "int \<Rightarrow> Batch \<Rightarrow> ImageShape \<Rightarrow> Draws \<Rightarrow> int \<Rightarrow> int \<Rightarrow> (real \<times> real) option" where
  "crop_aspect rm b s d outH outW = do {
     anisotropyRatio \<leftarrow> anisotropy_ratio rm b s d outH outW;
     cropH \<leftarrow> ddiv (of_int outH) anisotropyRatio;
     Some (of_int outW * anisotropyRatio, cropH)
   }"

text \<open>Lines 613-624: the size of the crop, rounded and clamped to the input image.\<close>

definition crop_size :: "int \<Rightarrow> Batch \<Rightarrow> ImageShape \<Rightarrow> Draws \<Rightarrow> real \<times> real \<Rightarrow> (real \<times> real) option" where
  "crop_size rm b s d cr = do {
     scale1 \<leftarrow> ddiv (real (width s)) (fst cr);
     scale2 \<leftarrow> ddiv (real (height s)) (snd cr);
     let scale = min scale1 scale2;
     z \<leftarrow> ddiv (of_int (r_size d)) (of_int rm);
     let size = z * (maxCropSize b - minCropSize b) + minCropSize b;
     Some (min (c_round (fst cr * (scale * size))) (real (width s)),
           min (c_round (snd cr * (scale * size))) (real (height s)))
   }"

text \<open>
  Lines 626-642: the offset of the crop. \<^verbatim>\<open>rand() % (dx + 1)\<close> has no value when
  \<^verbatim>\<open>dx + 1\<close> is zero.
\<close>

definition crop_location :: "Batch \<Rightarrow> ImageShape \<Rightarrow> Draws \<Rightarrow> real \<times> real \<Rightarrow> (int \<times> int) option" where
  "crop_location b s d cr =
     (let dx = c_trunc (real (width s) - fst cr);
          dy = c_trunc (real (height s) - snd cr)
      in case cropLocation b of
           cropCenter \<Rightarrow> Some (c_div (dx + 1) 2, c_div (dy + 1) 2)
         | cropRandom \<Rightarrow>
             if dx + 1 = 0 \<or> dy + 1 = 0 then None
             else Some (c_rem (r_dx d) (dx + 1), c_rem (r_dy d) (dy + 1)))"

text \<open>
  Lines 655-668: the brightness shift. The inner loop adds
  \<^verbatim>\<open>brightnessDeviation[i + 3*j] * w[i]\<close> for \<^verbatim>\<open>j = 0 .. numChannels-1\<close>.
\<close>

definition brightness_shift :: "real list \<Rightarrow> (nat \<Rightarrow> real) \<Rightarrow> nat \<Rightarrow> nat \<Rightarrow> real" where
  "brightness_shift B w numChannels i =
     foldl (\<lambda>acc j. acc + B ! (i + 3 * j) * w i) 0 [0..<numChannels]"

text \<open>
  The whole body, lines 569-668. \<^verbatim>\<open>w\<close> has three entries, so more than three channels
  would write past it.
\<close>

definition getItemTransformation :: "int \<Rightarrow> Batch \<Rightarrow> ImageShape \<Rightarrow> Draws \<Rightarrow> Plan option" where
  "getItemTransformation rm b s d = do {
     out \<leftarrow> output_size b s;
     cr0 \<leftarrow> crop_aspect rm b s d (fst out) (snd out);
     cr \<leftarrow> crop_size rm b s d cr0;
     off \<leftarrow> crop_location b s d cr;
     let numChannels = (if packingMethod b = individualArrays then depth s else 3);
     usat \<leftarrow> ddiv (2 * of_int (r_saturation d)) (of_int rm);
     ucon \<leftarrow> ddiv (2 * of_int (r_contrast d)) (of_int rm);
     if 3 < numChannels then None
     else Some \<lparr>
       outputWidth = snd out,
       outputHeight = fst out,
       outputNumChannels = numChannels,
       cropWidth = c_trunc (fst cr),
       cropHeight = c_trunc (snd cr),
       cropOffsetX = fst off,
       cropOffsetY = snd off,
       flip = (flipMode b \<and> r_flip d > c_div rm 2),
       brightnessShift = map (brightness_shift (brightnessDeviation b) (w_randn d) numChannels) [0..<numChannels],
       contrastShift = 1 + contrastDeviation b * (ucon - 1),
       saturationShift = 1 + saturationDeviation b * (usat - 1)
     \<rparr>
   }"

subsection \<open>Batch: items, queue and configuration\<close>

text \<open>
  \<^verbatim>\<open>Batch::Batch\<close>: the constructor assigns \<^verbatim>\<open>quit\<close>, the two methods, \<^verbatim>\<open>gpuMode\<close> and
  \<^verbatim>\<open>numReturnedItems\<close>; the other fields get their values from \<^verbatim>\<open>init\<close>, and are
  given the same values here.
\<close>

definition Batch_ctor :: Batch where
  "Batch_ctor = \<lparr>
     quit = True, items = [], nextItem = 0, numReturnedItems = 0,
     packingMethod = individualArrays, resizeMethod = noResize,
     resizeHeight = 0, resizeWidth = 0, gpuMode = False,
     average = [0, 0, 0], contrastDeviation = 0, saturationDeviation = 0,
     brightnessDeviation = replicate 9 0,
     minCropAnisotropy = 1, maxCropAnisotropy = 1, minCropSize = 1, maxCropSize = 1,
     cropLocation = cropCenter, flipMode = False,
     cpuPack = Pack_null, gpuPack = Pack_null \<rparr>"

text \<open>
  \<^verbatim>\<open>Batch::Item::Item\<close>: \<^verbatim>\<open>state(ready)\<close>, no error, not borrowed; the shape is the one
  of the default constructor of \<^verbatim>\<open>vl::ImageShape\<close>.
\<close>

definition Item_ctor :: Item where
  "Item_ctor = \<lparr>
     state = ready, name = [], shape = \<lparr>height = 0, width = 0, depth = 0\<rparr>,
     error = VLE_Success, errorMessage = [], borrowed = False,
     cpuArray = Tensor_null, gpuArray = Tensor_null, index = 0, plan = None \<rparr>"

text \<open>
  \<^verbatim>\<open>Batch::clear\<close>. Its loop waits for the borrowed items; an iteration of a worker is
  one step here, so no item is borrowed when the dispatcher runs.
\<close>

definition Batch_clear :: "Batch \<Rightarrow> Batch" where
  "Batch_clear b = b\<lparr>items := [], nextItem := 0, numReturnedItems := 0\<rparr>"

definition Batch_finalize :: "Batch \<Rightarrow> Batch" where
  "Batch_finalize b = (Batch_clear b)\<lparr>quit := True\<rparr>"

definition Batch_init :: "Batch \<Rightarrow> Batch" where
  "Batch_init b = (Batch_finalize b)\<lparr>
     quit := False, nextItem := 0, numReturnedItems := 0,
     brightnessDeviation := replicate 9 0, contrastDeviation := 0, saturationDeviation := 0,
     average := [0, 0, 0],
     cropLocation := cropCenter, minCropSize := 1, maxCropSize := 1,
     minCropAnisotropy := 1, maxCropAnisotropy := 1, flipMode := False,
     packingMethod := individualArrays, resizeMethod := noResize, gpuMode := False \<rparr>"

definition registerItem :: "Batch \<Rightarrow> string \<Rightarrow> Batch" where
  "registerItem b nm =
     b\<lparr>items := items b @ [Item_ctor\<lparr>index := length (items b), name := nm, state := prefetch\<rparr>]\<rparr>"

text \<open>
  \<^verbatim>\<open>Batch::borrowNextItem\<close> returns \<^verbatim>\<open>NULL\<close> on \<^verbatim>\<open>quit\<close>, hands out
  \<^verbatim>\<open>items[nextItem++]\<close>, or waits on the condition variable.
\<close>

datatype Borrow = Borrow_quit | Borrow_wait | Borrow_item nat Batch

definition borrowNextItem :: "Batch \<Rightarrow> Borrow" where
  "borrowNextItem b =
     (if quit b then Borrow_quit
      else if nextItem b < length (items b) then
        Borrow_item (nextItem b)
          (b\<lparr>items := (items b)[nextItem b := (items b ! nextItem b)\<lparr>borrowed := True\<rparr>],
             nextItem := nextItem b + 1\<rparr>)
      else Borrow_wait)"

text \<open>
  \<^verbatim>\<open>Batch::returnItem\<close>, for the item at position \<open>i\<close>. The last return of a fetch
  phase of a packed GPU batch copies the pack to the device; a failed copy is recorded on
  the returning item.
\<close>

definition returnItem :: "env \<Rightarrow> Batch \<Rightarrow> nat \<Rightarrow> Batch" where
  "returnItem e b i =
     (let n = numReturnedItems b + 1;
          item = items b ! i;
          push = (state item = fetch \<and> n = length (items b)
                  \<and> packingMethod b = singleArray \<and> gpuMode b);
          item1 = (if push \<and> \<not> cudaMemcpyAsync_ok e (index item)
                   then item\<lparr>error := VLE_Cuda, errorMessage := ''cudaMemcpyAsnyc''\<rparr>
                   else item);
          gp = (if push \<and> cudaMemcpyAsync_ok e (index item)
                then (case (gpuPack b, cpuPack b) of
                        (Pack_data sh old, Pack_data sh' slabs) \<Rightarrow> Pack_data sh slabs
                      | _ \<Rightarrow> gpuPack b)
                else gpuPack b)
      in b\<lparr>numReturnedItems := n, gpuPack := gp,
           items := (items b)[i := item1\<lparr>borrowed := False, state := ready\<rparr>]\<rparr>)"

datatype mex_error =
    VLMXE_IllegalArgument string
  | VLMXE_Execution string
  | Assertion_failed string
  | Out_of_range string

definition setGpuMode :: "Batch \<Rightarrow> bool \<Rightarrow> Batch" where
  "setGpuMode b gpu = b\<lparr>gpuMode := gpu\<rparr>"

definition setResizeMethod :: "Batch \<Rightarrow> ResizeMethod \<Rightarrow> int \<Rightarrow> int \<Rightarrow> Batch" where
  "setResizeMethod b method h w = b\<lparr>resizeMethod := method, resizeHeight := h, resizeWidth := w\<rparr>"

definition setPackingMethod :: "Batch \<Rightarrow> PackingMethod \<Rightarrow> Batch" where
  "setPackingMethod b method = b\<lparr>packingMethod := method\<rparr>"

definition setAverage :: "Batch \<Rightarrow> real list \<Rightarrow> Batch" where
  "setAverage b av = b\<lparr>average := av\<rparr>"

definition setColorDeviation :: "Batch \<Rightarrow> real list \<Rightarrow> real \<Rightarrow> real \<Rightarrow> Batch" where
  "setColorDeviation b brightness contrast saturation =
     b\<lparr>brightnessDeviation := brightness, contrastDeviation := contrast,
       saturationDeviation := saturation\<rparr>"

definition setFlipMode :: "Batch \<Rightarrow> bool \<Rightarrow> Batch" where
  "setFlipMode b x = b\<lparr>flipMode := x\<rparr>"

text \<open>The assertions of the setters are checked, as in a build without \<^verbatim>\<open>NDEBUG\<close>.\<close>

definition setCropAnisotropy :: "Batch \<Rightarrow> real \<Rightarrow> real \<Rightarrow> mex_error + Batch" where
  "setCropAnisotropy b minAnisotropy maxAnisotropy =
     (if \<not> minAnisotropy \<le> maxAnisotropy
      then Inl (Assertion_failed ''minAnisotropy <= maxAnisotropy'')
      else if \<not> (0 \<le> minAnisotropy \<and> minAnisotropy \<le> 1)
      then Inl (Assertion_failed ''0.0 <= minAnisotropy && minAnisotropy <= 1.0'')
      else Inr (b\<lparr>minCropAnisotropy := minAnisotropy, maxCropAnisotropy := maxAnisotropy\<rparr>))"

definition setCropSize :: "Batch \<Rightarrow> real \<Rightarrow> real \<Rightarrow> mex_error + Batch" where
  "setCropSize b minSize maxSize =
     (if \<not> minSize \<le> maxSize
      then Inl (Assertion_failed ''minSize <= maxSize'')
      else if \<not> (0 \<le> minSize \<and> minSize \<le> 1)
      then Inl (Assertion_failed ''0.0 <= minSize && minSize <= 1.0'')
      else if \<not> (0 \<le> maxSize \<and> maxSize \<le> 1)
      then Inl (Assertion_failed ''0.0 <= maxSize && maxSize <= 1.0'')
      else Inr (b\<lparr>minCropSize := minSize, maxCropSize := maxSize\<rparr>))"

definition setCropLocation :: "Batch \<Rightarrow> CropLocation \<Rightarrow> Batch" where
  "setCropLocation b location = b\<lparr>cropLocation := location\<rparr>"

subsection \<open>The worker: ReaderTask::entryPoint\<close>

text \<open>The calls of the image reader, in the order in which they are made.\<close>

datatype Event = ReadShape string | ReadPixels string

text \<open>
  Lines 823-843: \<^verbatim>\<open>dv[k]\<close> is assigned for \<^verbatim>\<open>k < item->shape.depth\<close>; the other entries
  of the array keep what the stack held. \<open>px\<close> is the output buffer after the two
  resampling passes, \<open>n\<close> the number of pixels of a channel, and \<^verbatim>\<open>channels[k][q]\<close> is
  \<open>px ! (n * k + q)\<close>.
\<close>

definition channel_mean :: "real list \<Rightarrow> nat \<Rightarrow> nat \<Rightarrow> real" where
  "channel_mean px n k = foldl (\<lambda>mu q. mu + px ! (n * k + q)) 0 [0..<n] / real n"

definition color_dv :: "env \<Rightarrow> Batch \<Rightarrow> Plan \<Rightarrow> nat \<Rightarrow> real list \<Rightarrow> nat \<Rightarrow> nat \<Rightarrow> real" where
  "color_dv e b p dep px n k =
     (if k < dep then
        (1 - 2 * contrastShift p) * (average b ! k + brightnessShift p ! k)
        - (if contrastShift p \<noteq> 1 then (1 - contrastShift p) * channel_mean px n k else 0)
      else uninit_dv e k)"

text \<open>
  Lines 844-877: the three cases of the passes over the pixels. The result is the output buffer after
  the loop: three channels in the first two cases, and in the last case the first
  channel followed by what the buffer held after it.
\<close>

definition postprocess_colors :: "env \<Rightarrow> Batch \<Rightarrow> Plan \<Rightarrow> nat \<Rightarrow> real list \<Rightarrow> real list" where
  "postprocess_colors e b p dep px =
     (let K = outputNumChannels p;
          n = nat (outputHeight p * outputWidth p);
          dv = color_dv e b p dep px n
      in if K = 3 \<and> dep = 3 then
           (let a = contrastShift p * saturationShift p;
                bb = contrastShift p * (1 - saturationShift p) / 3
            in concat (map (\<lambda>k. map (\<lambda>q.
                 a * (px ! (n * k + q) + dv k)
                 + bb * ((px ! q + dv 0) + (px ! (n + q) + dv 1) + (px ! (n * 2 + q) + dv 2)))
                 [0..<n]) [0..<3]))
         else if K = 3 \<and> dep = 1 then
           (let a = contrastShift p * saturationShift p;
                bb = contrastShift p * (1 - saturationShift p) / 3
            in concat (map (\<lambda>k. map (\<lambda>q.
                 a * (px ! q + dv k)
                 + bb * ((px ! q + dv 0) + (px ! q + dv 1) + (px ! q + dv 2)))
                 [0..<n]) [0..<3]))
         else map (\<lambda>q. contrastShift p * (px ! q + dv 0)) [0..<n] @ drop n px)"

text \<open>
  Lines 800-878: the two resampling passes and the colours. Without a transformation, or
  with more than three input channels (\<^verbatim>\<open>dv\<close> has three entries), the contents are
  indeterminate.
\<close>

definition fetch_pixels :: "env \<Rightarrow> Batch \<Rightarrow> Item \<Rightarrow> real list \<Rightarrow> real list option" where
  "fetch_pixels e b item inputPixels =
     (case plan item of
        None \<Rightarrow> None
      | Some p \<Rightarrow>
          if 3 < depth (shape item) then None
          else
            (let s = shape item;
                 temp = imageResizeVertical e inputPixels (outputHeight p) (int (height s))
                          (int (width s)) (int (depth s)) (cropHeight p) (cropOffsetY p) False;
                 out = imageResizeVertical e temp (outputWidth p) (int (width s))
                          (outputHeight p) (int (depth s)) (cropWidth p) (cropOffsetX p) (flip p)
             in Some (postprocess_colors e b p (depth s) out)))"

definition write_tensor :: "MexTensor \<Rightarrow> real list option \<Rightarrow> MexTensor" where
  "write_tensor t d = (case t of Tensor_data sh old \<Rightarrow> Tensor_data sh d | other \<Rightarrow> other)"

definition write_slab :: "Pack \<Rightarrow> nat \<Rightarrow> real list option \<Rightarrow> Pack" where
  "write_slab pk i d = (case pk of Pack_data sh slabs \<Rightarrow> Pack_data sh (slabs[i := d]) | Pack_null \<Rightarrow> Pack_null)"

text \<open>
  Lines 766-900: what a worker does with the item it borrowed, between
  \<^verbatim>\<open>borrowNextItem\<close> and \<^verbatim>\<open>returnItem\<close>. \<open>entryPoint_item\<close> gives the item as the
  worker leaves it, the contents it wrote to the slab of the item in the pack (if it
  wrote any), and the calls it made to the reader.
\<close>

definition entryPoint_item :: "env \<Rightarrow> Batch \<Rightarrow> Item \<Rightarrow> Item \<times> real list option option \<times> Event list" where
  "entryPoint_item e b item =
     (if error item \<noteq> VLE_Success then (item, None, [])
      else case state item of
        prefetch \<Rightarrow>
          (let r = readShape e (name item);
               item1 = item\<lparr>error := fst r, shape := snd r\<rparr>;
               item2 = (if fst r \<noteq> VLE_Success
                        then item1\<lparr>errorMessage := getLastErrorMessage e (name item)\<rparr>
                        else item1)
           in (item2, None, [ReadShape (name item)]))
      | fetch \<Rightarrow>
          (let r = readPixels e (name item) in
           if fst r \<noteq> VLE_Success then
             (item\<lparr>error := fst r, errorMessage := getLastErrorMessage e (name item)\<rparr>,
              None, [ReadPixels (name item)])
           else
             (let d = fetch_pixels e b item (snd r);
                  item1 = (if packingMethod b = individualArrays
                           then item\<lparr>cpuArray := write_tensor (cpuArray item) d\<rparr> else item);
                  item2 = (if packingMethod b = individualArrays \<and> gpuMode b then
                             (if cudaMemcpyAsync_ok e (index item)
                              then item1\<lparr>gpuArray := write_tensor (gpuArray item1) d\<rparr>
                              else item1\<lparr>error := VLE_Cuda,
                                     errorMessage := ''CUDA error while copying memory from host to device''\<rparr>)
                           else item1)
              in (item2, (if packingMethod b = individualArrays then None else Some d),
                  [ReadPixels (name item)])))
      | ready \<Rightarrow> (item, None, []))"

text \<open>The same for the item at position \<open>i\<close> of the batch.\<close>

definition entryPoint_work :: "env \<Rightarrow> Batch \<Rightarrow> nat \<Rightarrow> Batch \<times> Event list" where
  "entryPoint_work e b i =
     (let r = entryPoint_item e b (items b ! i)
      in (b\<lparr>items := (items b)[i := fst r],
            cpuPack := (case fst (snd r) of
                          None \<Rightarrow> cpuPack b
                        | Some d \<Rightarrow> write_slab (cpuPack b) (index (items b ! i)) d)\<rparr>,
          snd (snd r)))"

text \<open>One iteration of the loop of \<^verbatim>\<open>entryPoint\<close>; \<open>None\<close> when the worker quits or waits.\<close>

definition entryPoint_iteration :: "env \<Rightarrow> Batch \<Rightarrow> (Batch \<times> Event list) option" where
  "entryPoint_iteration e b =
     (case borrowNextItem b of
        Borrow_item i b1 \<Rightarrow>
          (let r = entryPoint_work e b1 i in Some (returnItem e (fst r) i, snd r))
      | Borrow_quit \<Rightarrow> None
      | Borrow_wait \<Rightarrow> None)"

text \<open>
  The workers, until they all wait: at most one iteration for each item that is still to
  be handed out, so \<open>length (items b) - nextItem b\<close> iterations are enough. An iteration
  touches the item it borrowed and, in packed mode, the slab of that item; the
  iterations are taken one after the other, in the order in which \<^verbatim>\<open>borrowNextItem\<close>
  hands the items out.
\<close>

fun run_workers :: "nat \<Rightarrow> env \<Rightarrow> Batch \<Rightarrow> Batch \<times> Event list" where
  "run_workers 0 e b = (b, [])"
| "run_workers (Suc n) e b =
     (case entryPoint_iteration e b of
        None \<Rightarrow> (b, [])
      | Some r \<Rightarrow> (let r2 = run_workers n e (fst r) in (fst r2, snd r @ snd r2)))"

text \<open>
  \<^verbatim>\<open>Batch::sync\<close> waits until every item is \<^verbatim>\<open>ready\<close>: the workers run until they
  wait.
\<close>

definition Batch_sync :: "env \<Rightarrow> Batch \<Rightarrow> Batch \<times> Event list" where
  "Batch_sync e b = run_workers (length (items b) - nextItem b) e b"

subsection \<open>Batch::prefetch\<close>

text \<open>
  Lines 555-689 for one item. The loop handles the items in the order of their
  positions, which \<^verbatim>\<open>registerItem\<close> stored in \<^verbatim>\<open>index\<close>.
\<close>

definition allocate :: "Plan option \<Rightarrow> MexTensor" where
  "allocate po =
     (case po of
        None \<Rightarrow> Tensor_indeterminate
      | Some p \<Rightarrow> Tensor_data (outputHeight p, outputWidth p, int (outputNumChannels p), 1) None)"

definition prefetch_item :: "env \<Rightarrow> Batch \<Rightarrow> Item \<Rightarrow> Item" where
  "prefetch_item e b item =
     (let po = getItemTransformation (RAND_MAX e) b (shape item) (rand_draws e (index item));
          item1 = item\<lparr>plan := po\<rparr>;
          item2 = (if packingMethod b = individualArrays
                   then item1\<lparr>cpuArray := allocate po,
                          gpuArray := (if gpuMode b then allocate po else gpuArray item1)\<rparr>
                   else item1)
      in item2\<lparr>state := fetch\<rparr>)"

text \<open>The part of \<^verbatim>\<open>Batch::prefetch\<close> that follows \<^verbatim>\<open>sync()\<close>, lines 539-691.\<close>

definition prefetch_after_sync :: "env \<Rightarrow> Batch \<Rightarrow> mex_error + Batch" where
  "prefetch_after_sync e b =
     (if packingMethod b = singleArray \<and> resizeMethod b \<noteq> fixedSize
      then Inl (Assertion_failed ''resizeMethod == fixedSize'')
      else
        (let sh = (resizeHeight b, resizeWidth b, 3, int (length (items b)));
             b1 = (if packingMethod b = singleArray
                   then b\<lparr>cpuPack := Pack_data sh (replicate (length (items b)) None),
                          gpuPack := (if gpuMode b
                                      then Pack_data sh (replicate (length (items b)) None)
                                      else gpuPack b)\<rparr>
                   else b);
             b2 = b1\<lparr>nextItem := 0, numReturnedItems := 0\<rparr>
         in Inr (b2\<lparr>items := map (prefetch_item e b2) (items b2)\<rparr>)))"

definition Batch_prefetch :: "env \<Rightarrow> Batch \<Rightarrow> (mex_error + Batch) \<times> Event list" where
  "Batch_prefetch e b =
     (let r = Batch_sync e b in (prefetch_after_sync e (fst r), snd r))"

subsection \<open>The reader tasks\<close>

text \<open>
  \<^verbatim>\<open>ReaderTask\<close>: its index, whether it has a thread and whether it has an image reader.
  \<^verbatim>\<open>finalize\<close> joins the thread; whether the joined thread can leave its loop is a
  matter of the threads and is not part of this model of the data.
\<close>

record ReaderTask =
  task_index :: int
  task_thread :: bool
  task_reader :: bool

definition ReaderTask_ctor :: ReaderTask where
  "ReaderTask_ctor = \<lparr>task_index = - 1, task_thread = False, task_reader = False\<rparr>"

definition ReaderTask_finalize :: "ReaderTask \<Rightarrow> ReaderTask" where
  "ReaderTask_finalize t = t\<lparr>task_reader := False, task_thread := False, task_index := - 1\<rparr>"

definition ReaderTask_init :: "ReaderTask \<Rightarrow> int \<Rightarrow> ReaderTask" where
  "ReaderTask_init t r = (ReaderTask_finalize t)\<lparr>task_index := r, task_thread := True, task_reader := True\<rparr>"

subsection \<open>The arguments of the MEX function\<close>

text \<open>
  An \<^verbatim>\<open>mxArray\<close>: a string, a plain (real, full, double) array of \<open>M\<close> by \<open>N\<close> elements
  in column-major order, a cell array, or anything else. The predicates below are those
  of VLFeat's \<^verbatim>\<open>mexutils.h\<close>, which is not part of the repository; a negative size
  stands for any size.
\<close>

datatype mxArray =
    MxString string
  | MxPlain nat nat "real list"
  | MxCell "mxArray list"
  | MxOther

definition vlmxIsString :: "mxArray \<Rightarrow> bool" where
  "vlmxIsString a = (case a of MxString s \<Rightarrow> True | _ \<Rightarrow> False)"

definition vlmxIsPlainMatrix :: "mxArray \<Rightarrow> bool" where
  "vlmxIsPlainMatrix a = (case a of MxPlain M N xs \<Rightarrow> True | _ \<Rightarrow> False)"

definition vlmxIsPlainVector :: "mxArray \<Rightarrow> int \<Rightarrow> bool" where
  "vlmxIsPlainVector a n =
     (case a of
        MxPlain M N xs \<Rightarrow> (M = 1 \<or> N = 1) \<and> (n < 0 \<or> int (length xs) = n)
      | _ \<Rightarrow> False)"

definition vlmxIsPlainScalar :: "mxArray \<Rightarrow> bool" where
  "vlmxIsPlainScalar a = (case a of MxPlain M N xs \<Rightarrow> length xs = 1 | _ \<Rightarrow> False)"

definition mxGetPr :: "mxArray \<Rightarrow> real list" where
  "mxGetPr a = (case a of MxPlain M N xs \<Rightarrow> xs | _ \<Rightarrow> [])"

text \<open>\<^verbatim>\<open>vlmxCompareToStringI\<close> compares without regard to the case of the letters.\<close>

definition lower_char :: "char \<Rightarrow> char" where
  "lower_char c =
     (if 65 \<le> (of_char c :: nat) \<and> (of_char c :: nat) \<le> 90
      then char_of ((of_char c :: nat) + 32) else c)"

definition vlmxCompareToStringI_eq :: "mxArray \<Rightarrow> string \<Rightarrow> bool" where
  "vlmxCompareToStringI_eq a s =
     (case a of MxString t \<Rightarrow> map lower_char t = map lower_char s | _ \<Rightarrow> False)"

text \<open>
  What \<^verbatim>\<open>vlmxNextOption\<close> yields: the code of the option and, for the options with a
  value, the value. \<^verbatim>\<open>NumThreads\<close> carries the result of \<^verbatim>\<open>mxGetScalar\<close>.
\<close>

datatype Option =
    opt_num_threads real
  | opt_prefetch
  | opt_resize mxArray
  | opt_pack
  | opt_gpu
  | opt_verbose
  | opt_subtract_average mxArray
  | opt_crop_size mxArray
  | opt_crop_location mxArray
  | opt_crop_anisotropy mxArray
  | opt_flip
  | opt_contrast mxArray
  | opt_saturation mxArray
  | opt_brightness mxArray

text \<open>The local variables of \<^verbatim>\<open>mexFunction\<close> that the options set.\<close>

record Locals =
  l_prefetch :: bool
  l_gpuMode :: bool
  l_requestedNumThreads :: int
  l_packingMethod :: PackingMethod
  l_resizeMethod :: ResizeMethod
  l_resizeWidth :: int
  l_resizeHeight :: int
  l_average :: "real list"
  l_brightnessDeviation :: "real list"
  l_saturationDeviation :: real
  l_contrastDeviation :: real
  l_flipMode :: bool
  l_cropLocation :: CropLocation
  l_minCropSize :: real
  l_maxCropSize :: real
  l_minCropAnisotropy :: real
  l_maxCropAnisotropy :: real
  l_verbosity :: nat

definition initial_locals :: "nat \<Rightarrow> Locals" where
  "initial_locals numReaders = \<lparr>
     l_prefetch = False, l_gpuMode = False, l_requestedNumThreads = int numReaders,
     l_packingMethod = individualArrays, l_resizeMethod = noResize,
     l_resizeWidth = - 1, l_resizeHeight = - 1,
     l_average = [0, 0, 0], l_brightnessDeviation = replicate 9 0,
     l_saturationDeviation = 0, l_contrastDeviation = 0, l_flipMode = False,
     l_cropLocation = cropCenter, l_minCropSize = 1, l_maxCropSize = 1,
     l_minCropAnisotropy = 1, l_maxCropAnisotropy = 1, l_verbosity = 0 \<rparr>"

text \<open>Lines 1007-1154: one turn of the loop over the options.\<close>

definition parse_resize :: "Locals \<Rightarrow> mxArray \<Rightarrow> mex_error + Locals" where
  "parse_resize l a =
     (if \<not> vlmxIsPlainVector a (- 1)
      then Inl (VLMXE_IllegalArgument ''RESIZE is not a plain vector.'')
      else
        (let x = mxGetPr a in
         if length x \<noteq> 1 \<and> length x \<noteq> 2
         then Inl (VLMXE_IllegalArgument ''RESIZE does not have one or two dimensions.'')
         else
           (let l1 = (if length x = 1
                      then l\<lparr>l_resizeMethod := resizeShortestSide,
                             l_resizeHeight := c_trunc (x ! 0), l_resizeWidth := c_trunc (x ! 0)\<rparr>
                      else l\<lparr>l_resizeMethod := fixedSize,
                             l_resizeHeight := c_trunc (x ! 0), l_resizeWidth := c_trunc (x ! 1)\<rparr>)
            in if l_resizeHeight l1 < 1 \<or> l_resizeWidth l1 < 1
               then Inl (VLMXE_IllegalArgument ''An element of RESIZE is smaller than one.'')
               else Inr l1)))"

definition parse_brightness :: "Locals \<Rightarrow> mxArray \<Rightarrow> mex_error + Locals" where
  "parse_brightness l a =
     (if \<not> vlmxIsPlainMatrix a
      then Inl (VLMXE_IllegalArgument ''BRIGHTNESS is not a plain matrix.'')
      else
        (let x = mxGetPr a; z = replicate 9 (0::real) in
         if length x = 1 then Inr (l\<lparr>l_brightnessDeviation := z[0 := x ! 0, 3 := x ! 0, 8 := x ! 0]\<rparr>)
         else if length x = 3 then Inr (l\<lparr>l_brightnessDeviation := z[0 := x ! 0, 3 := x ! 1, 8 := x ! 2]\<rparr>)
         else if length x = 9 then Inr (l\<lparr>l_brightnessDeviation := x\<rparr>)
         else Inl (VLMXE_IllegalArgument ''BRIGHTNESS does not have 1, 3, or 9 elements.'')))"

definition parse_option :: "Locals \<Rightarrow> Option \<Rightarrow> mex_error + Locals" where
  "parse_option l opt =
     (case opt of
        opt_verbose \<Rightarrow> Inr (l\<lparr>l_verbosity := l_verbosity l + 1\<rparr>)
      | opt_prefetch \<Rightarrow> Inr (l\<lparr>l_prefetch := True\<rparr>)
      | opt_pack \<Rightarrow> Inr (l\<lparr>l_packingMethod := singleArray\<rparr>)
      | opt_gpu \<Rightarrow> Inr (l\<lparr>l_gpuMode := True\<rparr>)
      | opt_num_threads x \<Rightarrow> Inr (l\<lparr>l_requestedNumThreads := c_trunc x\<rparr>)
      | opt_resize a \<Rightarrow> parse_resize l a
      | opt_brightness a \<Rightarrow> parse_brightness l a
      | opt_saturation a \<Rightarrow>
          if \<not> vlmxIsPlainScalar a
          then Inl (VLMXE_IllegalArgument ''SATURATION is not a plain scalar.'')
          else if mxGetPr a ! 0 < 0 \<or> mxGetPr a ! 0 > 1
          then Inl (VLMXE_IllegalArgument ''SATURATION is not in the [0,1] range..'')
          else Inr (l\<lparr>l_saturationDeviation := mxGetPr a ! 0\<rparr>)
      | opt_contrast a \<Rightarrow>
          if \<not> vlmxIsPlainScalar a
          then Inl (VLMXE_IllegalArgument ''CONTRAST is not a plain scalar.'')
          else if mxGetPr a ! 0 < 0 \<or> mxGetPr a ! 0 > 1
          then Inl (VLMXE_IllegalArgument ''CONTRAST is not in the [0,1] range..'')
          else Inr (l\<lparr>l_contrastDeviation := mxGetPr a ! 0\<rparr>)
      | opt_crop_anisotropy a \<Rightarrow>
          if \<not> vlmxIsPlainVector a 2
          then Inl (VLMXE_IllegalArgument ''CROPANISOTROPY is not a plain vector with two components.'')
          else if mxGetPr a ! 0 < 0 \<or> mxGetPr a ! 0 > mxGetPr a ! 1
          then Inl (VLMXE_IllegalArgument ''CROPANISOTROPY values are not in the legal range.'')
          else Inr (l\<lparr>l_minCropAnisotropy := mxGetPr a ! 0, l_maxCropAnisotropy := mxGetPr a ! 1\<rparr>)
      | opt_crop_size a \<Rightarrow>
          if \<not> vlmxIsPlainVector a 2
          then Inl (VLMXE_IllegalArgument ''CROPSIZE is not a plain vector with two components.'')
          else if mxGetPr a ! 0 < 0 \<or> mxGetPr a ! 0 > mxGetPr a ! 1 \<or> mxGetPr a ! 1 > 1
          then Inl (VLMXE_IllegalArgument ''CROPSIZE values are not in the legal range.'')
          else Inr (l\<lparr>l_minCropSize := mxGetPr a ! 0, l_maxCropSize := mxGetPr a ! 1\<rparr>)
      | opt_crop_location a \<Rightarrow>
          if \<not> vlmxIsString a
          then Inl (VLMXE_IllegalArgument ''CROPLOCATION is not a string'')
          else if vlmxCompareToStringI_eq a ''random'' then Inr (l\<lparr>l_cropLocation := cropRandom\<rparr>)
          else if vlmxCompareToStringI_eq a ''center'' then Inr (l\<lparr>l_cropLocation := cropCenter\<rparr>)
          else Inl (VLMXE_IllegalArgument ''CROPLOCATION value unknown.'')
      | opt_subtract_average a \<Rightarrow>
          if \<not> vlmxIsPlainVector a 3
          then Inl (VLMXE_IllegalArgument ''SUBTRACTAVERAGE is not a plain vector with three elements.'')
          else Inr (l\<lparr>l_average := [mxGetPr a ! 0, mxGetPr a ! 1, mxGetPr a ! 2]\<rparr>)
      | opt_flip \<Rightarrow> Inr (l\<lparr>l_flipMode := True\<rparr>))"

text \<open>The loop over the options: \<^verbatim>\<open>vlmxError\<close> leaves the MEX function at once.\<close>

fun parse_options :: "Locals \<Rightarrow> Option list \<Rightarrow> mex_error + Locals" where
  "parse_options l [] = Inr l"
| "parse_options l (opt # opts) =
     (case parse_option l opt of Inl err \<Rightarrow> Inl err | Inr l1 \<Rightarrow> parse_options l1 opts)"

subsection \<open>mexFunction\<close>

text \<open>The global variables: the batch, \<^verbatim>\<open>batchIsInitialized\<close> and the reader tasks.\<close>

record World =
  batch :: Batch
  batchIsInitialized :: bool
  readers :: "ReaderTask list"

definition initial_World :: World where
  "initial_World = \<lparr>batch = Batch_ctor, batchIsInitialized = False, readers = []\<rparr>"

text \<open>
  A call: \<^verbatim>\<open>in[IN_FILENAMES]\<close>, if there is one, and the options in the order in which
  \<^verbatim>\<open>vlmxNextOption\<close> yields them.
\<close>

record Call =
  in_filenames :: "mxArray option"
  in_options :: "Option list"

text \<open>Lines 1165-1172.\<close>

definition prepare_batch :: "World \<Rightarrow> World" where
  "prepare_batch w =
     (if \<not> batchIsInitialized w
      then w\<lparr>batch := Batch_init (batch w), batchIsInitialized := True\<rparr>
      else w)"

text \<open>
  Lines 1174-1185. Each turn of the loop appends a new task to \<^verbatim>\<open>readers\<close> and then
  initialises \<^verbatim>\<open>readers[r]\<close>.
\<close>

definition readers_turn :: "ReaderTask list \<Rightarrow> nat \<Rightarrow> ReaderTask list" where
  "readers_turn rs r =
     (let rs1 = rs @ [ReaderTask_ctor] in rs1[r := ReaderTask_init (rs1 ! r) (int r)])"

definition prepare_readers :: "World \<Rightarrow> int \<Rightarrow> World" where
  "prepare_readers w requested =
     (let requestedNumThreads = max requested 1 in
      if int (length (readers w)) \<noteq> requestedNumThreads
      then w\<lparr>batch := Batch_clear (batch w),
             readers := foldl readers_turn (readers w) [0..<nat requestedNumThreads]\<rparr>
      else w)"

text \<open>
  Lines 1187-1199: the names, each cut to the 511 characters that fit the buffer, and
  \<^verbatim>\<open>sameAsPrefeteched\<close>.
\<close>

fun filenames_loop ::
  "Batch \<Rightarrow> mxArray list \<Rightarrow> nat \<Rightarrow> string list \<Rightarrow> bool \<Rightarrow> mex_error + (string list \<times> bool)" where
  "filenames_loop b [] i filenames same = Inr (filenames, same)"
| "filenames_loop b (a # as) i filenames same =
     (case a of
        MxString s \<Rightarrow>
          filenames_loop b as (i + 1) (filenames @ [take 511 s])
            (same \<and> i < length (items b) \<and> name (items b ! i) = take 511 s)
      | _ \<Rightarrow> Inl (VLMXE_IllegalArgument ''FILENAMES contains an entry that is not a string.''))"

text \<open>Lines 1220-1230: the configuration of the batch from the options.\<close>

definition apply_configuration :: "Batch \<Rightarrow> Locals \<Rightarrow> mex_error + Batch" where
  "apply_configuration b l =
     (let b1 = setCropLocation (setFlipMode (setGpuMode b (l_gpuMode l)) (l_flipMode l)) (l_cropLocation l) in
      case setCropAnisotropy b1 (l_minCropAnisotropy l) (l_maxCropAnisotropy l) of
        Inl err \<Rightarrow> Inl err
      | Inr b2 \<Rightarrow>
          (case setCropSize b2 (l_minCropSize l) (l_maxCropSize l) of
             Inl err \<Rightarrow> Inl err
           | Inr b3 \<Rightarrow>
               Inr (setColorDeviation
                      (setAverage
                         (setResizeMethod (setPackingMethod b3 (l_packingMethod l))
                            (l_resizeMethod l) (l_resizeHeight l) (l_resizeWidth l))
                         (l_average l))
                      (l_brightnessDeviation l) (l_contrastDeviation l) (l_saturationDeviation l))))"

text \<open>
  Lines 1203-1236: a new cycle. The result is the error, if any. An assertion that
  fails ends the process, whatever the batch holds then.
\<close>

definition new_cycle :: "env \<Rightarrow> World \<Rightarrow> Locals \<Rightarrow> string list \<Rightarrow> World \<times> Event list \<times> mex_error option" where
  "new_cycle e w l filenames =
     (let b0 = Batch_clear (batch w) in
      if l_packingMethod l = singleArray \<and> l_resizeMethod l \<noteq> fixedSize
      then (w\<lparr>batch := b0\<rparr>, [],
            Some (VLMXE_IllegalArgument ''PACK must be used in combination with resizing to a fixed size.''))
      else
        (case apply_configuration b0 l of
           Inl err \<Rightarrow> (w\<lparr>batch := b0\<rparr>, [], Some err)
         | Inr b4 \<Rightarrow>
             (let r = Batch_prefetch e (foldl registerItem b4 filenames)
              in case fst r of
                   Inl err \<Rightarrow> (w\<lparr>batch := b0\<rparr>, snd r, Some err)
                 | Inr b6 \<Rightarrow> (w\<lparr>batch := b6\<rparr>, snd r, None))))"

text \<open>
  What the MEX function hands back: nothing (prefetch only), the pack in a cell, or a
  cell array with one cell per element of \<^verbatim>\<open>in[IN_FILENAMES]\<close>; an empty cell is
  \<open>Tensor_null\<close>.
\<close>

datatype Out = Out_none | Out_pack Pack | Out_cells "MexTensor list"

definition Item_relinquishArray :: "Batch \<Rightarrow> Item \<Rightarrow> MexTensor" where
  "Item_relinquishArray b item = (if gpuMode b then gpuArray item else cpuArray item)"

definition Batch_relinquishArray :: "Batch \<Rightarrow> Pack" where
  "Batch_relinquishArray b = (if gpuMode b then gpuPack b else cpuPack b)"

text \<open>
  Lines 1252-1266: the loop over the items of the batch. \<^verbatim>\<open>mxSetCell\<close> at a position
  that the cell array does not have writes outside of the array.
\<close>

fun emit_items :: "Batch \<Rightarrow> Item list \<Rightarrow> nat \<Rightarrow> MexTensor list \<Rightarrow> string list \<Rightarrow> mex_error + (MexTensor list \<times> string list)" where
  "emit_items b [] i out warnings = Inr (out, warnings)"
| "emit_items b (item # rest) i out warnings =
     (if error item \<noteq> VLE_Success
      then emit_items b rest (i + 1) out (warnings @ [name item])
      else if i < length out
      then emit_items b rest (i + 1) (out[i := Item_relinquishArray b item]) warnings
      else Inl (Out_of_range ''mxSetCell''))"

text \<open>Lines 1241-1269: \<^verbatim>\<open>sync\<close>, the results and their warnings, \<^verbatim>\<open>clear\<close>.\<close>

definition collect :: "env \<Rightarrow> World \<Rightarrow> nat \<Rightarrow> World \<times> Event list \<times> (mex_error + (Out \<times> string list))" where
  "collect e w numCells =
     (let r = Batch_sync e (batch w); b = fst r in
      case packingMethod b of
        singleArray \<Rightarrow>
          (w\<lparr>batch := Batch_clear (b\<lparr>cpuPack := (if gpuMode b then cpuPack b else Pack_null),
                                     gpuPack := (if gpuMode b then Pack_null else gpuPack b)\<rparr>)\<rparr>,
           snd r, Inr (Out_pack (Batch_relinquishArray b), []))
      | individualArrays \<Rightarrow>
          (case emit_items b (items b) 0 (replicate numCells Tensor_null) [] of
             Inl err \<Rightarrow> (w\<lparr>batch := b\<rparr>, snd r, Inl err)
           | Inr res \<Rightarrow> (w\<lparr>batch := Batch_clear b\<rparr>, snd r, Inr (Out_cells (fst res), snd res))))"

text \<open>
  \<^verbatim>\<open>mexFunction\<close>. The result is the new value of the globals, the calls made to the
  reader while the function ran, and either the error that ended the function or its
  output with the names of the files it warned about.
\<close>

definition mexFunction :: "env \<Rightarrow> World \<Rightarrow> Call \<Rightarrow> World \<times> Event list \<times> (mex_error + (Out \<times> string list))" where
  "mexFunction e w c =
     (case in_filenames c of
        None \<Rightarrow> (w, [], Inl (VLMXE_IllegalArgument ''There is less than one argument.''))
      | Some fa \<Rightarrow>
          (case parse_options (initial_locals (length (readers w))) (in_options c) of
             Inl err \<Rightarrow> (w, [], Inl err)
           | Inr l \<Rightarrow>
               (case fa of
                  MxCell cells \<Rightarrow>
                    (let w2 = prepare_readers (prepare_batch w) (l_requestedNumThreads l) in
                     case filenames_loop (batch w2) cells 0 [] True of
                       Inl err \<Rightarrow> (w2, [], Inl err)
                     | Inr fs \<Rightarrow>
                         (let r = (if snd fs then (w2, [], None) else new_cycle e w2 l (fst fs)) in
                          case snd (snd r) of
                            Some err \<Rightarrow> (fst r, fst (snd r), Inl err)
                          | None \<Rightarrow>
                              if l_prefetch l then (fst r, fst (snd r), Inr (Out_none, []))
                              else
                                (let r2 = collect e (fst r) (length cells)
                                 in (fst r2, fst (snd r) @ fst (snd r2), snd (snd r2)))))
                | _ \<Rightarrow> (w, [], Inl (VLMXE_IllegalArgument ''FILENAMES is not a cell array of strings.'')))))"


subsection \<open>One item in a batch of individual arrays\<close>



text \<open>The items that \<^verbatim>\<open>registerItem\<close> appends for a list of names, from position \<open>k\<close> on.\<close>

fun registered :: "nat \<Rightarrow> string list \<Rightarrow> Item list" where
  "registered k [] = []"
| "registered k (nm # nms) =
     Item_ctor\<lparr>index := k, name := nm, state := prefetch\<rparr> # registered (Suc k) nms"





subsection \<open>Executions of the queue operations\<close>











text \<open>A call with a cell array of names.\<close>

definition names_Call :: "string list \<Rightarrow> Option list \<Rightarrow> Call" where
  "names_Call nms opts = \<lparr>in_filenames = Some (MxCell (map MxString nms)), in_options = opts\<rparr>"

subsection \<open>Concrete inputs\<close>

text \<open>A batch as \<^verbatim>\<open>init\<close> leaves it, used below with some fields changed.\<close>

definition fresh_Batch :: Batch where
  "fresh_Batch = Batch_init Batch_ctor"

text \<open>Draws that are all zero, and a reader-independent environment built on them.\<close>

definition zero_Draws :: Draws where
  "zero_Draws = \<lparr>r_anisotropy = 0, r_size = 0, r_dx = 0, r_dy = 0, r_flip = 0,
                  r_saturation = 0, r_contrast = 0, w_randn = (\<lambda>k. 0)\<rparr>"

text \<open>
  A packed batch whose brightness matrix is \<open>1 .. 9\<close> in column-major order, and draws
  with \<open>w = (1, 2, 3)\<close>.
\<close>

definition brightness_Batch :: Batch where
  "brightness_Batch = fresh_Batch\<lparr>
     packingMethod := singleArray, resizeMethod := fixedSize, resizeHeight := 2, resizeWidth := 2,
     brightnessDeviation := [1, 2, 3, 4, 5, 6, 7, 8, 9]\<rparr>"

definition brightness_Draws :: Draws where
  "brightness_Draws = zero_Draws\<lparr>w_randn := (\<lambda>k. real k + 1)\<rparr>"

text \<open>
  A reader that fails on the file \<open>MISSING\<close>, reads a grey image of one pixel from the
  file \<open>gray\<close> and a colour image of two by two pixels from any other file; a resampling
  that copies; draws that are zero; 5 in the unassigned entries of \<^verbatim>\<open>dv\<close>.
\<close>

definition scenario_env :: env where
  "scenario_env = \<lparr>
     readShape = (\<lambda>n. if n = ''MISSING'' then (VLE_Unknown, \<lparr>height = 0, width = 0, depth = 0\<rparr>)
                       else if n = ''gray'' then (VLE_Success, \<lparr>height = 1, width = 1, depth = 1\<rparr>)
                       else (VLE_Success, \<lparr>height = 2, width = 2, depth = 3\<rparr>)),
     readPixels = (\<lambda>n. if n = ''gray'' then (VLE_Success, [10]) else (VLE_Success, replicate 12 1)),
     getLastErrorMessage = (\<lambda>n. ''cannot open''),
     imageResizeVertical = (\<lambda>src dh sh w dp ch co fl. src),
     rand_draws = (\<lambda>i. zero_Draws),
     RAND_MAX = 32767,
     cudaMemcpyAsync_ok = (\<lambda>i. True),
     uninit_dv = (\<lambda>k. 5) \<rparr>"

definition brightness_Plan :: Plan where
  "brightness_Plan = \<lparr>
     outputWidth = 2, outputHeight = 2, outputNumChannels = 3, cropWidth = 4, cropHeight = 4,
     cropOffsetX = 0, cropOffsetY = 0, flip = False, brightnessShift = [12, 30, 54],
     contrastShift = 1, saturationShift = 1\<rparr>"




text \<open>
  The transformation of a grey image of one pixel in a packed batch, without any change
  of contrast or saturation.
\<close>

definition gray_Plan :: Plan where
  "gray_Plan = \<lparr>
     outputWidth = 1, outputHeight = 1, outputNumChannels = 3, cropWidth = 1, cropHeight = 1,
     cropOffsetX = 0, cropOffsetY = 0, flip = False, brightnessShift = [0, 0, 0],
     contrastShift = 1, saturationShift = 1\<rparr>"

text \<open>
  The colours of the grey image broadcast to three channels, in the words of the
  specification: every channel \<open>k\<close> has its shift
  \<open>dv k = (1 - 2c) (avg k + brightness_shift k)\<close>, less \<open>(1 - c) mean k\<close> when \<open>c\<close> is
  not 1; the pixel \<open>x\<close> of the input channel becomes \<open>a v k + b mu\<close> with
  \<open>v k = x + dv k\<close>, \<open>mu = v 0 + v 1 + v 2\<close>, \<open>a = c s\<close> and \<open>b = c (1 - s) / 3\<close>.
\<close>

definition spec_dv :: "real \<Rightarrow> real list \<Rightarrow> real list \<Rightarrow> (nat \<Rightarrow> real) \<Rightarrow> nat \<Rightarrow> real" where
  "spec_dv c avg bs mean k =
     (1 - 2 * c) * (avg ! k + bs ! k) - (if c \<noteq> 1 then (1 - c) * mean k else 0)"

definition spec_grayscale_broadcast ::
  "real \<Rightarrow> real \<Rightarrow> real list \<Rightarrow> real list \<Rightarrow> (nat \<Rightarrow> real) \<Rightarrow> real list \<Rightarrow> real list" where
  "spec_grayscale_broadcast c s avg bs mean ch0 =
     concat (map (\<lambda>k. map (\<lambda>x.
        c * s * (x + spec_dv c avg bs mean k)
        + c * (1 - s) / 3 * ((x + spec_dv c avg bs mean 0) + (x + spec_dv c avg bs mean 1)
                             + (x + spec_dv c avg bs mean 2))) ch0) [0..<3])"














section \<open>Properties\<close>

subsection \<open>The transformation of an item\<close>

lemma brightness_shift_3:
  "brightness_shift B w 3 i = (\<Sum>j<3. B ! (i + 3 * j) * w i)"
  by (simp add: brightness_shift_def upt_rec numeral_3_eq_3 lessThan_Suc)

lemma plan_brightnessShift:
  "getItemTransformation rm b s d = Some p \<Longrightarrow>
   brightnessShift p = map (brightness_shift (brightnessDeviation b) (w_randn d) (outputNumChannels p))
                         [0..<outputNumChannels p]"
  by (auto simp: getItemTransformation_def Let_def split: Option.bind_splits if_splits)

text \<open>
  Claim C9. For an item with three output channels, the transformation sets
  \<^verbatim>\<open>brightnessShift[i]\<close> to the sum over \<open>j\<close> of
  \<^verbatim>\<open>brightnessDeviation[i + 3*j] * w[i]\<close>, for \<open>i = 0, 1, 2\<close>: the normal value has the
  index \<open>i\<close> in every term of the sum.
\<close>

theorem C9_brightness_shift:
  assumes "getItemTransformation rm b s d = Some p" and "outputNumChannels p = 3"
  shows "\<forall>i<3. brightnessShift p ! i = (\<Sum>j<3. brightnessDeviation b ! (i + 3 * j) * w_randn d i)"
proof (intro allI impI)
  fix i :: nat assume "i < 3"
  have "brightnessShift p ! i = brightness_shift (brightnessDeviation b) (w_randn d) 3 i"
    using plan_brightnessShift[OF assms(1)] assms(2) \<open>i < 3\<close> by simp
  then show "brightnessShift p ! i = (\<Sum>j<3. brightnessDeviation b ! (i + 3 * j) * w_randn d i)"
    by (simp only: brightness_shift_3)
qed

theorem C9_brightness_shift_witness:
  "getItemTransformation 32767 brightness_Batch \<lparr>height = 4, width = 4, depth = 1\<rparr> brightness_Draws
     = Some brightness_Plan
   \<and> outputNumChannels brightness_Plan = 3
   \<and> brightnessShift brightness_Plan ! 0
       = (\<Sum>j<3. brightnessDeviation brightness_Batch ! (0 + 3 * j) * w_randn brightness_Draws 0)
   \<and> brightnessShift brightness_Plan ! 0 = 12"
proof -
  have p: "getItemTransformation 32767 brightness_Batch \<lparr>height = 4, width = 4, depth = 1\<rparr> brightness_Draws
             = Some brightness_Plan"
    by code_simp
  have n: "outputNumChannels brightness_Plan = 3" by (simp add: brightness_Plan_def)
  have v: "brightnessShift brightness_Plan ! 0 = 12" by (simp add: brightness_Plan_def)
  from C9_brightness_shift[OF p n] p n v show ?thesis by simp
qed

text \<open>
  The crop of an item. When the doubles of the transformation are all determinate, the
  crop lies inside the image: the sides are clamped to the image and the offsets are
  taken between 0 and the room that is left.
\<close>

lemma c_round_clamp:
  assumes "0 \<le> x"
  shows "\<exists>m. 0 \<le> m \<and> m \<le> int w \<and> min (c_round x) (real w) = of_int m"
proof -
  let ?n = "\<lfloor>x + 1 / 2\<rfloor>"
  have n0: "0 \<le> ?n" using assms by simp
  have "c_round x = of_int ?n" using assms by (simp add: c_round_def)
  then have "min (c_round x) (real w) = of_int (min ?n (int w))" by (simp add: min_def)
  moreover have "0 \<le> min ?n (int w)" "min ?n (int w) \<le> int w" using n0 by simp_all
  ultimately show ?thesis by blast
qed

lemma c_div_nonneg: "0 \<le> a \<Longrightarrow> 0 < b \<Longrightarrow> c_div a b = a div b"
  by (cases "a = 0") (simp_all add: c_div_def)

lemma c_rem_nonneg: "0 \<le> a \<Longrightarrow> 0 < b \<Longrightarrow> c_rem a b = a mod b"
  by (simp add: c_rem_def c_div_nonneg minus_mult_div_eq_mod)

lemma crop_location_bounds:
  assumes "crop_location b s d (of_int cw, of_int ch) = Some off"
      and "0 \<le> cw" "cw \<le> int (width s)" "0 \<le> ch" "ch \<le> int (height s)"
      and "0 \<le> r_dx d" "0 \<le> r_dy d"
  shows "0 \<le> fst off \<and> fst off + cw \<le> int (width s) \<and> 0 \<le> snd off \<and> snd off + ch \<le> int (height s)"
proof -
  have dx: "c_trunc (real (width s) - of_int cw) = int (width s) - cw"
  proof -
    have "real (width s) - of_int cw = of_int (int (width s) - cw)" by simp
    moreover have "0 \<le> int (width s) - cw" using assms by simp
    ultimately show ?thesis unfolding c_trunc_def by (metis floor_of_int of_int_0_le_iff)
  qed
  have dy: "c_trunc (real (height s) - of_int ch) = int (height s) - ch"
  proof -
    have "real (height s) - of_int ch = of_int (int (height s) - ch)" by simp
    moreover have "0 \<le> int (height s) - ch" using assms by simp
    ultimately show ?thesis unfolding c_trunc_def by (metis floor_of_int of_int_0_le_iff)
  qed
  let ?dx = "int (width s) - cw" and ?dy = "int (height s) - ch"
  have px: "0 \<le> ?dx" and py: "0 \<le> ?dy" using assms by simp_all
  show ?thesis
  proof (cases "cropLocation b")
    case cropCenter
    with assms(1) have off: "off = (c_div (?dx + 1) 2, c_div (?dy + 1) 2)"
      by (simp add: crop_location_def dx dy Let_def)
    have "c_div (?dx + 1) 2 = (?dx + 1) div 2" "c_div (?dy + 1) 2 = (?dy + 1) div 2"
      using px py by (simp_all add: c_div_nonneg)
    moreover have "0 \<le> (?dx + 1) div 2" "(?dx + 1) div 2 \<le> ?dx"
      "0 \<le> (?dy + 1) div 2" "(?dy + 1) div 2 \<le> ?dy"
      using px py by linarith+
    ultimately show ?thesis using off by simp
  next
    case cropRandom
    with assms(1) have off: "off = (c_rem (r_dx d) (?dx + 1), c_rem (r_dy d) (?dy + 1))"
      by (simp add: crop_location_def dx dy Let_def split: if_splits)
    have rx: "c_rem (r_dx d) (?dx + 1) = r_dx d mod (?dx + 1)"
      and ry: "c_rem (r_dy d) (?dy + 1) = r_dy d mod (?dy + 1)"
      using px py assms(6,7) by (simp_all add: c_rem_nonneg)
    have qx: "0 < ?dx + 1" and qy: "0 < ?dy + 1" using px py by linarith+
    have "0 \<le> r_dx d mod (?dx + 1)" "r_dx d mod (?dx + 1) < ?dx + 1"
         "0 \<le> r_dy d mod (?dy + 1)" "r_dy d mod (?dy + 1) < ?dy + 1"
      using pos_mod_sign[OF qx] pos_mod_bound[OF qx] pos_mod_sign[OF qy] pos_mod_bound[OF qy]
      by blast+
    with off rx ry show ?thesis by simp
  qed
qed

lemma output_size_nonneg:
  assumes "output_size b s = Some out" and "0 \<le> resizeHeight b" "0 \<le> resizeWidth b"
  shows "0 \<le> fst out \<and> 0 \<le> snd out"
  using assms
  by (auto simp: output_size_def c_trunc_def split: ResizeMethod.splits Option.bind_splits)

lemma anisotropy_ratio_nonneg:
  assumes "anisotropy_ratio rm b s d outH outW = Some a"
      and "0 \<le> outH" "0 \<le> outW"
      and "0 \<le> minCropAnisotropy b" "minCropAnisotropy b \<le> maxCropAnisotropy b"
      and "0 < rm" "0 \<le> r_anisotropy d"
  shows "0 \<le> a"
proof (cases "minCropAnisotropy b = 0 \<and> maxCropAnisotropy b = 0")
  case True
  with assms(1) obtain ia oa where "ddiv (real (width s)) (real (height s)) = Some ia"
    "ddiv (of_int outW) (of_int outH) = Some oa" "ddiv oa ia = Some a"
    by (auto simp: anisotropy_ratio_def split: Option.bind_splits)
  with assms(2,3) show ?thesis
    by (auto simp: ddiv_def split: if_splits)
next
  case False
  with assms(1) obtain z where z: "ddiv (of_int (r_anisotropy d)) (of_int rm) = Some z"
    and a: "a = z * (maxCropAnisotropy b - minCropAnisotropy b) + minCropAnisotropy b"
    by (auto simp: anisotropy_ratio_def split: Option.bind_splits if_splits)
  from z assms(6,7) have "0 \<le> z" by (auto simp: ddiv_def split: if_splits)
  with a assms(4,5) show ?thesis by simp
qed

lemma crop_size_bounds:
  assumes "crop_size rm b s d cr0 = Some cr"
      and "0 \<le> fst cr0" "0 \<le> snd cr0"
      and "0 \<le> minCropSize b" "minCropSize b \<le> maxCropSize b"
      and "0 < rm" "0 \<le> r_size d"
  shows "\<exists>cw ch. cr = (of_int cw, of_int ch) \<and> 0 \<le> cw \<and> cw \<le> int (width s)
                 \<and> 0 \<le> ch \<and> ch \<le> int (height s)"
proof -
  from assms(1) obtain s1 s2 z where
        s1: "ddiv (real (width s)) (fst cr0) = Some s1"
    and s2: "ddiv (real (height s)) (snd cr0) = Some s2"
    and z: "ddiv (of_int (r_size d)) (of_int rm) = Some z"
    and cr: "cr = (min (c_round (fst cr0 * (min s1 s2 * (z * (maxCropSize b - minCropSize b) + minCropSize b))))
                     (real (width s)),
                  min (c_round (snd cr0 * (min s1 s2 * (z * (maxCropSize b - minCropSize b) + minCropSize b))))
                     (real (height s)))"
    by (auto simp: crop_size_def Let_def split: Option.bind_splits)
  have "0 \<le> s1" "0 \<le> s2" using s1 s2 assms(2,3) by (auto simp: ddiv_def split: if_splits)
  then have sc: "0 \<le> min s1 s2" by simp
  have "0 \<le> z" using z assms(6,7) by (auto simp: ddiv_def split: if_splits)
  then have sz: "0 \<le> z * (maxCropSize b - minCropSize b) + minCropSize b"
    using assms(4,5) by simp
  have x: "0 \<le> fst cr0 * (min s1 s2 * (z * (maxCropSize b - minCropSize b) + minCropSize b))"
    and y: "0 \<le> snd cr0 * (min s1 s2 * (z * (maxCropSize b - minCropSize b) + minCropSize b))"
    using assms(2,3) sc sz by simp_all
  from c_round_clamp[OF x, of "width s"] c_round_clamp[OF y, of "height s"] cr
  show ?thesis by auto
qed

lemma crop_bounds:
  assumes plan: "getItemTransformation rm b s d = Some p"
      and aniso: "0 \<le> minCropAnisotropy b" "minCropAnisotropy b \<le> maxCropAnisotropy b"
      and size: "0 \<le> minCropSize b" "minCropSize b \<le> maxCropSize b"
      and resize: "0 \<le> resizeHeight b" "0 \<le> resizeWidth b"
      and draws: "0 < rm" "0 \<le> r_anisotropy d" "0 \<le> r_size d" "0 \<le> r_dx d" "0 \<le> r_dy d"
  shows "0 \<le> cropOffsetX p \<and> 0 \<le> cropWidth p \<and> cropOffsetX p + cropWidth p \<le> int (width s)
       \<and> 0 \<le> cropOffsetY p \<and> 0 \<le> cropHeight p \<and> cropOffsetY p + cropHeight p \<le> int (height s)"
proof -
  from plan obtain out cr0 cr off where
        out: "output_size b s = Some out"
    and cr0: "crop_aspect rm b s d (fst out) (snd out) = Some cr0"
    and cr: "crop_size rm b s d cr0 = Some cr"
    and off: "crop_location b s d cr = Some off"
    and p: "cropWidth p = c_trunc (fst cr)" "cropHeight p = c_trunc (snd cr)"
           "cropOffsetX p = fst off" "cropOffsetY p = snd off"
    by (auto simp: getItemTransformation_def Let_def split: Option.bind_splits if_splits)
  from output_size_nonneg[OF out resize] have o: "0 \<le> fst out" "0 \<le> snd out" by simp_all
  from cr0 obtain a ch0 where a: "anisotropy_ratio rm b s d (fst out) (snd out) = Some a"
    and ch0: "ddiv (of_int (fst out)) a = Some ch0" and c0: "cr0 = (of_int (snd out) * a, ch0)"
    by (auto simp: crop_aspect_def split: Option.bind_splits)
  have a0: "0 \<le> a"
    using anisotropy_ratio_nonneg[OF a o aniso draws(1,2)] .
  have "0 \<le> ch0" using ch0 o a0 by (auto simp: ddiv_def split: if_splits)
  with c0 a0 o have c0n: "0 \<le> fst cr0" "0 \<le> snd cr0" by simp_all
  from crop_size_bounds[OF cr c0n size draws(1,3)] obtain cw ch where
    crv: "cr = (of_int cw, of_int ch)" and b1: "0 \<le> cw" "cw \<le> int (width s)" "0 \<le> ch" "ch \<le> int (height s)"
    by blast
  have t: "c_trunc (fst cr) = cw" "c_trunc (snd cr) = ch"
    using crv b1 by (simp_all add: c_trunc_def)
  from crop_location_bounds[OF off[unfolded crv] b1 draws(4,5)] p t b1
  show ?thesis by simp
qed

text \<open>
  Claim C6, at an input where the code leaves it. With the anisotropy range \<open>[0, 1]\<close>,
  which the option parser and the assertions of \<^verbatim>\<open>setCropAnisotropy\<close> accept, and a
  draw \<^verbatim>\<open>rand() = 0\<close>, the ratio is 0: \<^verbatim>\<open>cropHeight = outputHeight / 0\<close> is infinite, the
  scale is 0, their product is a NaN, and so are the crop height and \<^verbatim>\<open>dy\<close> whose
  conversions to integers are stored. No crop rectangle inside the image is computed:
  the transformation is indeterminate, and so is the tensor of the item.
\<close>

theorem C6_zero_anisotropy:
  "parse_options (initial_locals 0) [opt_crop_anisotropy (MxPlain 1 2 [0, 1])]
     = Inr ((initial_locals 0)\<lparr>l_minCropAnisotropy := 0, l_maxCropAnisotropy := 1\<rparr>)
   \<and> getItemTransformation 32767 (fresh_Batch\<lparr>minCropAnisotropy := 0\<rparr>)
        \<lparr>height = 2, width = 2, depth = 3\<rparr> zero_Draws = None
   \<and> snd (snd (mexFunction scenario_env initial_World
        (names_Call [''A''] [opt_crop_anisotropy (MxPlain 1 2 [0, 1])])))
       = Inr (Out_cells [Tensor_indeterminate], [])"
  by code_simp

subsection \<open>The states of the items\<close>








subsection \<open>The pool of reader tasks\<close>




subsection \<open>The colours\<close>

lemma packed_gray_output:
  "snd (snd (mexFunction scenario_env initial_World
     (names_Call [''gray'']
        [opt_pack, opt_resize (MxPlain 1 2 [1, 1]), opt_subtract_average (MxPlain 1 3 [0, 1, 0])])))
   = Inr (Out_pack (Pack_data (1, 1, 3, 1) [Some [10, 15, 15]]), [])"
  by code_simp

text \<open>
  Claim C5, at an input where the code leaves it: a grey image of one pixel of value 10
  in a packed batch, contrast and saturation 1, no brightness shift, averages
  \<open>(0, a1, a2)\<close>. The loop that assigns \<^verbatim>\<open>dv\<close> runs over the channels of the input, so
  \<^verbatim>\<open>dv[1]\<close> and \<^verbatim>\<open>dv[2]\<close> keep what the stack held (\<open>g 1\<close> and \<open>g 2\<close>) and the averages
  \<open>a1\<close> and \<open>a2\<close> are not subtracted; the formula of the claim gives \<open>10 - a1\<close> and
  \<open>10 - a2\<close>.
\<close>

theorem C5_grayscale_broadcast:
  "postprocess_colors (scenario_env\<lparr>uninit_dv := g\<rparr>) (fresh_Batch\<lparr>average := [0, a1, a2]\<rparr>)
     gray_Plan 1 [10] = [10, 10 + g 1, 10 + g 2]
   \<and> spec_grayscale_broadcast 1 1 [0, a1, a2] [0, 0, 0] mean [10] = [10, 10 - a1, 10 - a2]"
  by (simp add: postprocess_colors_def color_dv_def gray_Plan_def spec_grayscale_broadcast_def
      spec_dv_def Let_def upt_rec numeral_nat)

subsection \<open>The options\<close>

text \<open>
  Claim C10, at an input where the code leaves it: the option parser accepts the
  anisotropy range \<open>[2, 3]\<close>, and the assertion \<^verbatim>\<open>minAnisotropy <= 1.0\<close> of
  \<^verbatim>\<open>Batch::setCropAnisotropy\<close> fails on it.
\<close>

theorem C10_anisotropy_assertion:
  "parse_options (initial_locals 0) [opt_crop_anisotropy (MxPlain 1 2 [2, 3])]
     = Inr ((initial_locals 0)\<lparr>l_minCropAnisotropy := 2, l_maxCropAnisotropy := 3\<rparr>)
   \<and> setCropAnisotropy fresh_Batch 2 3
       = Inl (Assertion_failed ''0.0 <= minAnisotropy && minAnisotropy <= 1.0'')
   \<and> snd (snd (mexFunction scenario_env initial_World
        (names_Call [''A''] [opt_crop_anisotropy (MxPlain 1 2 [2, 3])])))
       = Inl (Assertion_failed ''0.0 <= minAnisotropy && minAnisotropy <= 1.0'')"
  by code_simp

subsection \<open>The workers on a batch of individual arrays\<close>














lemma length_registered [simp]: "length (registered k nms) = length nms"
  by (induction nms arbitrary: k) simp_all

lemma map_name_registered [simp]: "map name (registered k nms) = nms"
  by (induction nms arbitrary: k) (simp_all add: Item_ctor_def)


















subsection \<open>The dispatcher on a new cycle of individual arrays\<close>




























subsection \<open>Scenario S1: shortest side resized to 32\<close>










subsection \<open>Reuse of a prefetched batch\<close>


lemma map_name_update:
  "i < length xs \<Longrightarrow> name x = name (xs ! i) \<Longrightarrow> map name (xs[i := x]) = map name xs"
  by (simp add: map_update list_update_same_conv)




























subsection \<open>Errors of configuration\<close>








end
